theory Spec2Isabelle
  imports Main
begin

section \<open>Data model\<close>

text \<open>
  The program is a single Go file, \<^verbatim>\<open>mysql_health_check.go\<close>, kept in two variants
  (top level and \<^verbatim>\<open>app/\<close>). Both share the decoder \<^verbatim>\<open>unknownColumns\<close>, the probes
  \<^verbatim>\<open>readOnly\<close>, \<^verbatim>\<open>replicaStatus\<close>, \<^verbatim>\<open>isReplica\<close>, \<^verbatim>\<open>servingBinlogs\<close>,
  \<^verbatim>\<open>galeraClusterState\<close> and all route handlers except \<^verbatim>\<open>RouteRoleMaster\<close>, which the
  \<^verbatim>\<open>app/\<close> variant extends. Older snapshots of the file (a decoder taking the column
  name, a lag test without the field-present case) are not modelled.
\<close>

text \<open>\<^verbatim>\<open>type HTTPResponse struct { Status bool; Content string }\<close>\<close>

record HTTPResponse =
  Status :: bool
  Content :: string

text \<open>\<^verbatim>\<open>type SlaveStatus struct { masterHost, masterPort, secondsMaster string }\<close>\<close>

record SlaveStatus =
  masterHost :: string
  masterPort :: string
  secondsMaster :: string

text \<open>
  What \<^verbatim>\<open>rows.Scan\<close> stores into an \<^verbatim>\<open>interface{}\<close> destination: the driver's value
  kinds. A database NULL arrives as the nil interface and a text column as a non-nil byte
  slice (empty for the empty string); the other kinds are what a driver may deliver for
  typed columns.
\<close>

datatype driver_Value =
    VNil
  | VBytes string
  | VString string
  | VInt64 int
  | VBool bool

text \<open>
  An open \<^verbatim>\<open>*sql.Rows\<close>: the column names and the remaining data rows. Every row
  carries one value per column, so a row is paired with the columns position by position.
\<close>

record Rows =
  Columns :: "string list"
  Data :: "driver_Value list list"

datatype sql_error = ErrNoRows | ErrQuery

text \<open>
  The database handle \<^verbatim>\<open>db\<close> as seen by one request: the outcome of each of the four
  diagnostic queries the program issues. \<^verbatim>\<open>QueryRow(...).Scan(...)\<close> yields either an
  error (\<^verbatim>\<open>sql.ErrNoRows\<close> when the result is empty) or the scanned values.
\<close>

record DB =
  show_read_only :: "sql_error + string \<times> string"
  show_slave_status :: "sql_error + Rows"
  count_binlog_dump :: "sql_error + int"
  select_wsrep_state :: "sql_error + string"

text \<open>
  The package variable \<^verbatim>\<open>var lag int\<close>. The URL middleware stores the threshold of a
  \<^verbatim>\<open>/role/replica/<n>\<close> request in it, and \<^verbatim>\<open>replicaStatus\<close> stores the parsed lag
  in it. (\<^verbatim>\<open>var db *sql.DB\<close> is only read after start-up.)
\<close>

record globals =
  lag :: int

section \<open>Standard library: strconv\<close>

text \<open>
  \<^verbatim>\<open>strconv.Atoi\<close> and \<^verbatim>\<open>strconv.Itoa\<close> of the Go standard library, for a 64-bit
  \<^verbatim>\<open>int\<close>. \<^verbatim>\<open>Atoi\<close> accepts an optional sign followed by one or more decimal digits;
  a malformed string gives \<open>0\<close> with a syntax error, a number out of range gives the
  nearest bound with a range error. \<open>ParseUint\<close> is \<^verbatim>\<open>strconv.ParseUint(s, 10, 64)\<close>:
  it reads the bytes from left to right and returns at the first byte that is no digit
  (syntax error) or at the first digit that takes the value past \<open>2 ^ 64 - 1\<close> (range
  error, with that maximum as value), whichever comes first.
\<close>

definition IntSize :: nat where
  "IntSize = 64"

definition MaxInt64 :: int where
  "MaxInt64 = 2 ^ 63 - 1"

definition MaxInt32 :: int where
  "MaxInt32 = 2 ^ 31 - 1"

definition MinInt64 :: int where
  "MinInt64 = - (2 ^ 63)"

datatype NumError = ErrSyntax | ErrRange

definition digit :: "char \<Rightarrow> nat option" where
  "digit c = (let k = (of_char c :: nat) in
     if 48 \<le> k \<and> k \<le> 57 then Some (k - 48) else None)"

definition MaxUint64 :: nat where
  "MaxUint64 = 2 ^ 64 - 1"

text \<open>The loop of \<^verbatim>\<open>ParseUint\<close>; \<open>MaxUint64 div 10 + 1\<close> is its \<^verbatim>\<open>cutoff\<close>.\<close>

fun parse_digits :: "string \<Rightarrow> nat \<Rightarrow> nat \<times> NumError option" where
  "parse_digits [] n = (n, None)"
| "parse_digits (c # cs) n =
     (case digit c of
        None \<Rightarrow> (0, Some ErrSyntax)
      | Some d \<Rightarrow>
          if n \<ge> MaxUint64 div 10 + 1 then (MaxUint64, Some ErrRange)
          else if n * 10 + d > MaxUint64 then (MaxUint64, Some ErrRange)
          else parse_digits cs (n * 10 + d))"

definition ParseUint :: "string \<Rightarrow> nat \<times> NumError option" where
  "ParseUint s = (if s = [] then (0, Some ErrSyntax) else parse_digits s 0)"

text \<open>
  \<^verbatim>\<open>Atoi\<close> through \<^verbatim>\<open>ParseInt(s, 10, 0)\<close>: the sign is taken off, a syntax error of
  \<^verbatim>\<open>ParseUint\<close> gives 0, and a magnitude beyond the signed range (a range error of
  \<^verbatim>\<open>ParseUint\<close> included) gives the nearest bound. The fast path of \<^verbatim>\<open>Atoi\<close> for short
  strings returns the same values.
\<close>

definition Atoi :: "string \<Rightarrow> int \<times> NumError option" where
  "Atoi s =
     (if s = [] then (0, Some ErrSyntax)
      else let neg = (hd s = CHR ''-'');
               s1 = (if hd s = CHR ''+'' \<or> hd s = CHR ''-'' then tl s else s);
               (un, err) = ParseUint s1
           in if err = Some ErrSyntax then (0, Some ErrSyntax)
              else if \<not> neg \<and> int un \<ge> 2 ^ 63 then (MaxInt64, Some ErrRange)
              else if neg \<and> int un > 2 ^ 63 then (MinInt64, Some ErrRange)
              else (if neg then - int un else int un, None))"

fun utoa :: "nat \<Rightarrow> string" where
  "utoa n = (if n < 10 then [''0123456789'' ! n]
             else utoa (n div 10) @ [''0123456789'' ! (n mod 10)])"

declare utoa.simps [simp del]

definition Itoa :: "int \<Rightarrow> string" where
  "Itoa i = (if i < 0 then CHR ''-'' # utoa (nat (- i)) else utoa (nat i))"

section \<open>General functions\<close>

text \<open>\<^verbatim>\<open>func int2bool(value int) bool\<close>\<close>

definition int2bool :: "int \<Rightarrow> bool" where
  "int2bool v = (if v \<noteq> 0 then True else False)"

text \<open>
  The type assertion \<^verbatim>\<open>b, ok := val.([]byte)\<close>: \<open>b\<close> is the byte slice when the value
  holds one and nil (\<open>None\<close>) for every other kind of value, the nil interface included.
\<close>

fun assert_bytes :: "driver_Value \<Rightarrow> string option \<times> bool" where
  "assert_bytes (VBytes b) = (Some b, True)"
| "assert_bytes _ = (None, False)"

text \<open>
  The three-way column match at the end of the inner loop of \<^verbatim>\<open>unknownColumns\<close>.
\<close>

definition store_column :: "string \<Rightarrow> string \<Rightarrow> SlaveStatus \<Rightarrow> SlaveStatus" where
  "store_column col sNum res =
     (if col = ''Master_Host'' then res\<lparr>masterHost := sNum\<rparr>
      else if col = ''Master_Port'' then res\<lparr>masterPort := sNum\<rparr>
      else if col = ''Seconds_Behind_Master'' then res\<lparr>secondsMaster := sNum\<rparr>
      else res)"

text \<open>
  The inner loop \<^verbatim>\<open>for i, col := range columns\<close> over one scanned row. \<open>Inl res\<close> is
  the \<^verbatim>\<open>return *res\<close> taken when \<^verbatim>\<open>b == nil\<close>, which leaves the whole function;
  \<open>Inr res\<close> is the loop running to its end. After the nil test only a byte slice is
  left, so \<^verbatim>\<open>value.(string)\<close> always succeeds on \<^verbatim>\<open>string(b)\<close>.
\<close>

fun scan_columns :: "(string \<times> driver_Value) list \<Rightarrow> SlaveStatus \<Rightarrow> SlaveStatus + SlaveStatus" where
  "scan_columns [] res = Inr res"
| "scan_columns ((col, val) # rest) res =
     (case assert_bytes val of
        (None, ok) \<Rightarrow> Inl res
      | (Some b, ok) \<Rightarrow> scan_columns rest (store_column col b res))"

text \<open>The outer loop \<^verbatim>\<open>for rows.Next()\<close>.\<close>

fun scan_rows :: "string list \<Rightarrow> driver_Value list list \<Rightarrow> SlaveStatus \<Rightarrow> SlaveStatus" where
  "scan_rows columns [] res = res"
| "scan_rows columns (values # remaining) res =
     (case scan_columns (zip columns values) res of
        Inl r \<Rightarrow> r
      | Inr r \<Rightarrow> scan_rows columns remaining r)"

definition new_SlaveStatus :: SlaveStatus where
  "new_SlaveStatus = \<lparr>masterHost = [], masterPort = [], secondsMaster = []\<rparr>"

text \<open>\<^verbatim>\<open>func unknownColumns(rows *sql.Rows) SlaveStatus\<close>\<close>

definition unknownColumns :: "Rows \<Rightarrow> SlaveStatus" where
  "unknownColumns rows = scan_rows (Columns rows) (Data rows) new_SlaveStatus"

text \<open>
  \<^verbatim>\<open>func routeResponse(w, httpStatus bool, contents string)\<close>: the status code written
  to the header and the object that is marshalled into the body.
\<close>

definition routeResponse :: "bool \<Rightarrow> string \<Rightarrow> nat \<times> HTTPResponse" where
  "routeResponse httpStatus contents =
     (if httpStatus then 200 else 403, \<lparr>Status = httpStatus, Content = contents\<rparr>)"

section \<open>Database functions\<close>

text \<open>\<^verbatim>\<open>func readOnly() bool\<close>\<close>

definition readOnly :: "DB \<Rightarrow> bool" where
  "readOnly db =
     (case show_read_only db of
        Inl err \<Rightarrow> False
      | Inr (key, state) \<Rightarrow> if state = ''OFF'' then False else True)"

text \<open>
  \<^verbatim>\<open>func replicaStatus(lagCount int) (bool, int)\<close>. It assigns the package variable
  \<^verbatim>\<open>lag\<close>, so it takes the globals and returns them updated next to its result.
\<close>

definition replicaStatus :: "DB \<Rightarrow> int \<Rightarrow> globals \<Rightarrow> (bool \<times> int) \<times> globals" where
  "replicaStatus db lagCount0 g =
     (let lagCount = (if lagCount0 = 0
                      then (if IntSize = 64 then MaxInt64 else MaxInt32)
                      else lagCount0)
      in case show_slave_status db of
           Inl err \<Rightarrow> ((False, 0), g)
         | Inr rows \<Rightarrow>
             let slaveValues = unknownColumns rows;
                 notSlave = (secondsMaster slaveValues = []);
                 seconds = (if secondsMaster slaveValues = [] then ''0''
                            else secondsMaster slaveValues);
                 g' = g\<lparr>lag := fst (Atoi seconds)\<rparr>
             in if lag g' > 0 \<or> \<not> notSlave
                then (if lagCount > lag g' then ((True, lag g'), g') else ((False, lag g'), g'))
                else ((False, 0), g'))"

text \<open>\<^verbatim>\<open>func isReplica() (bool, string, string)\<close>\<close>

definition isReplica :: "DB \<Rightarrow> bool \<times> string \<times> string" where
  "isReplica db =
     (case show_slave_status db of
        Inl err \<Rightarrow> (False, [], [])
      | Inr rows \<Rightarrow>
          let slaveValues = unknownColumns rows
          in if masterHost slaveValues \<noteq> []
             then (True, masterHost slaveValues, masterPort slaveValues)
             else (False, [], []))"

text \<open>\<^verbatim>\<open>func servingBinlogs() int\<close>\<close>

definition servingBinlogs :: "DB \<Rightarrow> int" where
  "servingBinlogs db = (case count_binlog_dump db of Inl err \<Rightarrow> 0 | Inr count \<Rightarrow> count)"

text \<open>\<^verbatim>\<open>func galeraClusterState() (bool, string)\<close>\<close>

definition galeraClusterState :: "DB \<Rightarrow> bool \<times> string" where
  "galeraClusterState db =
     (case select_wsrep_state db of Inl err \<Rightarrow> (False, []) | Inr v \<Rightarrow> (True, v))"

section \<open>Routes\<close>

text \<open>
  Each handler yields what it passes to \<^verbatim>\<open>routeResponse\<close>; the handlers that call
  \<^verbatim>\<open>replicaStatus\<close> also yield the globals it leaves behind. A handler that probes
  twice reads the same database state both times.
\<close>

definition RouteStatusReadOnly :: "DB \<Rightarrow> nat \<times> HTTPResponse" where
  "RouteStatusReadOnly db = (let isReadonly = readOnly db in routeResponse isReadonly [])"

definition RouteStatusReadWritable :: "DB \<Rightarrow> nat \<times> HTTPResponse" where
  "RouteStatusReadWritable db =
     (let isReadonly = readOnly db in routeResponse (\<not> isReadonly) [])"

definition RouteStatusSingle :: "DB \<Rightarrow> nat \<times> HTTPResponse" where
  "RouteStatusSingle db =
     (let isReadonly = readOnly db;
          isRep = fst (isReplica db);
          isServeLogs = int2bool (servingBinlogs db)
      in routeResponse (\<not> isReadonly \<and> \<not> isRep \<and> \<not> isServeLogs) [])"

definition RouteStatusLeader :: "DB \<Rightarrow> nat \<times> HTTPResponse" where
  "RouteStatusLeader db =
     (let isRep = fst (isReplica db);
          isServeLogs = int2bool (servingBinlogs db)
      in routeResponse (\<not> isRep \<and> isServeLogs) [])"

definition RouteStatusFollower :: "DB \<Rightarrow> nat \<times> HTTPResponse" where
  "RouteStatusFollower db = (let isRep = fst (isReplica db) in routeResponse isRep [])"

definition RouteStatusTopology :: "DB \<Rightarrow> globals \<Rightarrow> (nat \<times> HTTPResponse) \<times> globals" where
  "RouteStatusTopology db g =
     (let isRep = fst (isReplica db);
          (result, g') = replicaStatus db 0 g;
          repStatus = fst result;
          isServeLogs = int2bool (servingBinlogs db)
      in (routeResponse ((\<not> repStatus \<and> isServeLogs) \<or> isRep) [], g'))"

text \<open>\<^verbatim>\<open>RouteRoleMaster\<close> of the top-level variant.\<close>

definition RouteRoleMaster :: "DB \<Rightarrow> nat \<times> HTTPResponse" where
  "RouteRoleMaster db =
     (let isReadonly = readOnly db;
          isRep = fst (isReplica db)
      in routeResponse (\<not> isReadonly \<and> \<not> isRep) [])"

text \<open>
  \<^verbatim>\<open>RouteRoleMaster\<close> of the \<^verbatim>\<open>app/\<close> variant, which first looks for the file
  \<^verbatim>\<open>/master\<close>; the argument is the outcome of \<^verbatim>\<open>os.Stat("/master")\<close>.
\<close>

datatype stat_result = StatOk | StatNotExist | StatOtherError

definition IsNotExist :: "stat_result \<Rightarrow> bool" where
  "IsNotExist r = (r = StatNotExist)"

definition RouteRoleMaster_app :: "stat_result \<Rightarrow> DB \<Rightarrow> nat \<times> HTTPResponse" where
  "RouteRoleMaster_app st db =
     (if IsNotExist st
      then (let isReadonly = readOnly db;
                isRep = fst (isReplica db);
                isServeLogs = int2bool (servingBinlogs db)
            in routeResponse (\<not> isReadonly \<and> \<not> isRep \<and> isServeLogs) [])
      else routeResponse True [])"

definition RouteRoleReplica :: "DB \<Rightarrow> globals \<Rightarrow> (nat \<times> HTTPResponse) \<times> globals" where
  "RouteRoleReplica db g =
     (let isReadonly = readOnly db;
          (result, g') = replicaStatus db 0 g;
          repStatus = fst result
      in (routeResponse (isReadonly \<and> repStatus) [], g'))"

text \<open>
  \<^verbatim>\<open>RouteRoleReplicaByLag\<close> passes the package variable \<^verbatim>\<open>lag\<close>, which the URL
  middleware has set from the request path.
\<close>

definition RouteRoleReplicaByLag :: "DB \<Rightarrow> globals \<Rightarrow> (nat \<times> HTTPResponse) \<times> globals" where
  "RouteRoleReplicaByLag db g =
     (let isReadonly = readOnly db;
          (result, g') = replicaStatus db (lag g) g;
          repStatus = fst result
      in (routeResponse (isReadonly \<and> repStatus) [], g'))"

definition RouteRoleGalera :: "DB \<Rightarrow> nat \<times> HTTPResponse" where
  "RouteRoleGalera db = (let state = fst (galeraClusterState db) in routeResponse state [])"

definition RouteReadGaleraState :: "DB \<Rightarrow> nat \<times> HTTPResponse" where
  "RouteReadGaleraState db =
     (let (state, varValue) = galeraClusterState db in routeResponse state varValue)"

definition RouteReadReplicationLag :: "DB \<Rightarrow> globals \<Rightarrow> (nat \<times> HTTPResponse) \<times> globals" where
  "RouteReadReplicationLag db g =
     (let isRep = fst (isReplica db);
          (result, g') = replicaStatus db 0 g;
          lagValue = snd result;
          lagString = (if isRep then Itoa lagValue else [])
      in (routeResponse isRep lagString, g'))"

definition RouteReadReplicationMaster :: "DB \<Rightarrow> nat \<times> HTTPResponse" where
  "RouteReadReplicationMaster db =
     (let (isRep, masterIP, port) = isReplica db;
          masterIP' = (if isRep then masterIP @ '':'' @ port else masterIP)
      in routeResponse isRep masterIP')"

definition RouteReadReplicasCounter :: "DB \<Rightarrow> nat \<times> HTTPResponse" where
  "RouteReadReplicasCounter db =
     (let isServeLogs = servingBinlogs db;
          lagString = (if int2bool isServeLogs then Itoa isServeLogs else ''0'')
      in routeResponse (int2bool isServeLogs) lagString)"

section \<open>Auxiliary notions for the statements\<close>

text \<open>
  \<open>is_bytes\<close> tells whether the type assertion to a byte slice yields a non-nil
  slice. \<open>column_text seen name\<close> is the text of the last column called \<open>name\<close> in a
  list of scanned columns, and empty when there is none.
\<close>

definition is_bytes :: "driver_Value \<Rightarrow> bool" where
  "is_bytes v = (fst (assert_bytes v) \<noteq> None)"

definition column_text :: "(string \<times> driver_Value) list \<Rightarrow> string \<Rightarrow> string" where
  "column_text seen name =
     (case map_of (rev seen) name of Some (VBytes b) \<Rightarrow> b | _ \<Rightarrow> [])"

text \<open>
  A probe is unavailable when its query fails or, for the replication-status query,
  succeeds without a row (\<^verbatim>\<open>QueryRow\<close> reports a missing row as the error
  \<^verbatim>\<open>sql.ErrNoRows\<close>).
\<close>

definition slave_status_unavailable :: "DB \<Rightarrow> bool" where
  "slave_status_unavailable db =
     (case show_slave_status db of Inl e \<Rightarrow> True | Inr rows \<Rightarrow> Data rows = [])"

definition probes_unavailable :: "DB \<Rightarrow> bool" where
  "probes_unavailable db =
     (isl (show_read_only db) \<and> slave_status_unavailable db \<and>
      isl (count_binlog_dump db) \<and> isl (select_wsrep_state db))"

text \<open>
  Example states: a one-row replication status with the columns in the server's order,
  a database answering all four queries, and a database on which every query fails.
\<close>

definition slave_status_row :: "driver_Value \<Rightarrow> driver_Value \<Rightarrow> driver_Value \<Rightarrow> Rows" where
  "slave_status_row host port seconds =
     \<lparr>Columns = [''Slave_IO_State'', ''Master_Host'', ''Master_User'', ''Master_Port'',
                 ''Seconds_Behind_Master''],
      Data = [[VBytes ''Waiting for master to send event'', host, VBytes ''repl'', port,
               seconds]]\<rparr>"

definition example_db :: "string \<Rightarrow> Rows \<Rightarrow> int \<Rightarrow> DB" where
  "example_db state rows n =
     \<lparr>show_read_only = Inr (''read_only'', state),
      show_slave_status = Inr rows,
      count_binlog_dump = Inr n,
      select_wsrep_state = Inl ErrNoRows\<rparr>"

definition failed_db :: DB where
  "failed_db =
     \<lparr>show_read_only = Inl ErrQuery,
      show_slave_status = Inl ErrQuery,
      count_binlog_dump = Inl ErrQuery,
      select_wsrep_state = Inl ErrQuery\<rparr>"

section \<open>Evaluation lemmas\<close>

lemmas decode_defs = unknownColumns_def new_SlaveStatus_def store_column_def
  slave_status_row_def example_db_def

lemma Atoi_Nil: "Atoi [] = (0, Some ErrSyntax)"
  by (simp add: Atoi_def)

lemma Atoi_zero: "Atoi ''0'' = (0, None)"
  by (simp add: Atoi_def ParseUint_def MaxUint64_def digit_def)

lemma Atoi_examples:
  "Atoi ''5'' = (5, None)" "Atoi ''7'' = (7, None)" "Atoi ''42'' = (42, None)"
  "Atoi ''-5'' = (- 5, None)"
  by (simp_all add: Atoi_def ParseUint_def MaxUint64_def digit_def)

text \<open>
  Out of range, \<^verbatim>\<open>Atoi\<close> answers at the overflowing digit, before a later byte that is
  no digit is read.
\<close>

lemma Atoi_range_examples:
  "Atoi ''99999999999999999999x'' = (MaxInt64, Some ErrRange)"
  "Atoi ''-9223372036854775809'' = (MinInt64, Some ErrRange)"
  "Atoi ''9223372036854775807'' = (MaxInt64, None)"
  "Atoi ''12x'' = (0, Some ErrSyntax)"
  by (simp_all add: Atoi_def ParseUint_def MaxUint64_def MaxInt64_def MinInt64_def digit_def)

lemma Itoa_zero: "Itoa 0 = ''0''"
  by (simp add: Itoa_def utoa.simps)

lemma Status_routeResponse: "Status (snd (routeResponse b s)) = b"
  by (simp add: routeResponse_def)

lemma Content_routeResponse: "Content (snd (routeResponse b s)) = s"
  by (simp add: routeResponse_def)

lemma unknownColumns_no_rows:
  "unknownColumns \<lparr>Columns = cols, Data = []\<rparr> = new_SlaveStatus"
  by (simp add: unknownColumns_def)

section \<open>The probes, case by case\<close>

lemma replicaStatus_Inl:
  "show_slave_status db = Inl e \<Longrightarrow> replicaStatus db t g = ((False, 0), g)"
  by (simp add: replicaStatus_def)

lemma replicaStatus_Inr:
  "show_slave_status db = Inr rows \<Longrightarrow>
   fst (replicaStatus db t g) =
     (if secondsMaster (unknownColumns rows) = [] then (False, 0)
      else (fst (Atoi (secondsMaster (unknownColumns rows))) < (if t = 0 then MaxInt64 else t),
            fst (Atoi (secondsMaster (unknownColumns rows)))))"
  by (simp add: replicaStatus_def Let_def Atoi_zero IntSize_def)

text \<open>What a successful call leaves in the package variable: the parsed lag.\<close>

lemma replicaStatus_lag:
  "show_slave_status db = Inr rows \<Longrightarrow>
   snd (replicaStatus db t g) =
     g\<lparr>lag := (if secondsMaster (unknownColumns rows) = [] then 0
               else fst (Atoi (secondsMaster (unknownColumns rows))))\<rparr>"
  by (simp add: replicaStatus_def Let_def Atoi_zero)


lemma isReplica_Inl: "show_slave_status db = Inl e \<Longrightarrow> isReplica db = (False, [], [])"
  by (simp add: isReplica_def)

lemma isReplica_Inr:
  "show_slave_status db = Inr rows \<Longrightarrow>
   isReplica db =
     (if masterHost (unknownColumns rows) \<noteq> []
      then (True, masterHost (unknownColumns rows), masterPort (unknownColumns rows))
      else (False, [], []))"
  by (simp add: isReplica_def Let_def)

section \<open>The row decoder\<close>

lemma masterHost_store:
  "masterHost (store_column c b res) = (if c = ''Master_Host'' then b else masterHost res)"
  by (simp add: store_column_def)

lemma masterPort_store:
  "masterPort (store_column c b res) = (if c = ''Master_Port'' then b else masterPort res)"
  by (simp add: store_column_def)

lemma secondsMaster_store:
  "secondsMaster (store_column c b res) =
     (if c = ''Seconds_Behind_Master'' then b else secondsMaster res)"
  by (simp add: store_column_def)

text \<open>
  The inner loop stores the columns of the longest prefix of byte values, in order, and
  reports whether it ran to the end.
\<close>

lemma scan_columns_fold:
  "scan_columns cvs res =
     (if list_all (\<lambda>(c, v). is_bytes v) cvs then Inr else Inl)
       (fold (\<lambda>(c, v). store_column c (the (fst (assert_bytes v))))
          (takeWhile (\<lambda>(c, v). is_bytes v) cvs) res)"
proof (induction cvs arbitrary: res)
  case Nil
  show ?case by simp
next
  case (Cons cv cvs)
  obtain c v where cv: "cv = (c, v)" by (cases cv)
  show ?case
  proof (cases v)
    case (VBytes b)
    show ?thesis unfolding cv VBytes using Cons.IH [of "store_column c b res"]
      by (simp add: is_bytes_def)
  qed (simp_all add: cv is_bytes_def)
qed

lemma fold_store_masterHost:
  "masterHost (fold (\<lambda>(c, v). store_column c (the (fst (assert_bytes v)))) xs res) =
     (case map_of (rev xs) ''Master_Host'' of
        Some v \<Rightarrow> the (fst (assert_bytes v)) | None \<Rightarrow> masterHost res)"
  by (induction xs arbitrary: res)
     (auto simp: masterHost_store map_add_def split: option.splits)

lemma fold_store_masterPort:
  "masterPort (fold (\<lambda>(c, v). store_column c (the (fst (assert_bytes v)))) xs res) =
     (case map_of (rev xs) ''Master_Port'' of
        Some v \<Rightarrow> the (fst (assert_bytes v)) | None \<Rightarrow> masterPort res)"
  by (induction xs arbitrary: res)
     (auto simp: masterPort_store map_add_def split: option.splits)

lemma fold_store_secondsMaster:
  "secondsMaster (fold (\<lambda>(c, v). store_column c (the (fst (assert_bytes v)))) xs res) =
     (case map_of (rev xs) ''Seconds_Behind_Master'' of
        Some v \<Rightarrow> the (fst (assert_bytes v)) | None \<Rightarrow> secondsMaster res)"
  by (induction xs arbitrary: res)
     (auto simp: secondsMaster_store map_add_def split: option.splits)

lemma column_text_bytes:
  assumes "\<forall>(c, v) \<in> set seen. is_bytes v"
  shows "column_text seen name =
     (case map_of (rev seen) name of Some v \<Rightarrow> the (fst (assert_bytes v)) | None \<Rightarrow> [])"
proof (cases "map_of (rev seen) name")
  case None
  then show ?thesis by (simp add: column_text_def)
next
  case (Some v)
  then have "(name, v) \<in> set seen" by (auto dest: map_of_SomeD)
  with assms have "is_bytes v" by auto
  then obtain b where "v = VBytes b" by (cases v) (simp_all add: is_bytes_def)
  with Some show ?thesis by (simp add: column_text_def)
qed

lemma single_row_fold:
  "unknownColumns \<lparr>Columns = cols, Data = [vals]\<rparr> =
     fold (\<lambda>(c, v). store_column c (the (fst (assert_bytes v))))
       (takeWhile (\<lambda>(c, v). is_bytes v) (zip cols vals)) new_SlaveStatus"
  by (simp add: unknownColumns_def scan_columns_fold)

section \<open>The lag evaluator\<close>

text \<open>
  C1, as the code has it. For every threshold \<open>t > 0\<close>, \<^verbatim>\<open>replicaStatus(t)\<close>
  answers within-threshold exactly when the replication-status query succeeds, the
  decoded \<^verbatim>\<open>Seconds_Behind_Master\<close> is non-empty and its parsed value is strictly below
  \<open>t\<close>. A lag of zero or below with the field present is within threshold; a lag equal to
  \<open>t\<close> is not, because the comparison is \<^verbatim>\<open>lagCount > lag\<close>.
\<close>

theorem replicaStatus_within_threshold:
  "0 < t \<Longrightarrow>
   fst (fst (replicaStatus db t g)) =
     (case show_slave_status db of
        Inl e \<Rightarrow> False
      | Inr rows \<Rightarrow>
          secondsMaster (unknownColumns rows) \<noteq> [] \<and>
          fst (Atoi (secondsMaster (unknownColumns rows))) < t)"
  by (cases "show_slave_status db") (simp_all add: replicaStatus_Inl replicaStatus_Inr)

theorem replicaStatus_within_threshold_witness:
  "(0::int) < 30 \<and>
   fst (fst (replicaStatus
     (example_db ''ON'' (slave_status_row (VBytes ''db1'') (VBytes ''3306'') (VBytes ''42'')) 0)
     30 \<lparr>lag = 30\<rparr>)) = False \<and>
   fst (fst (replicaStatus
     (example_db ''ON'' (slave_status_row (VBytes ''db1'') (VBytes ''3306'') (VBytes ''7'')) 0)
     30 \<lparr>lag = 30\<rparr>)) = True"
  using
    replicaStatus_within_threshold [of 30
      "example_db ''ON'' (slave_status_row (VBytes ''db1'') (VBytes ''3306'') (VBytes ''42'')) 0"
      "\<lparr>lag = 30\<rparr>"]
    replicaStatus_within_threshold [of 30
      "example_db ''ON'' (slave_status_row (VBytes ''db1'') (VBytes ''3306'') (VBytes ''7'')) 0"
      "\<lparr>lag = 30\<rparr>"]
  by (simp add: decode_defs Atoi_examples)

text \<open>
  The specification states C1 with the closed bound \<open>(0, t]\<close>. With
  threshold 5 and \<^verbatim>\<open>Seconds_Behind_Master = "5"\<close> the lag parses to 5, which lies in
  \<open>(0, 5]\<close>, and the answer is \<open>(false, 5)\<close>.
\<close>

theorem replicaStatus_threshold_exclusive:
  "fst (Atoi ''5'') = 5 \<and>
   fst (replicaStatus
     (example_db ''ON'' (slave_status_row (VBytes ''db1'') (VBytes ''3306'') (VBytes ''5'')) 0)
     5 \<lparr>lag = 5\<rparr>) = (False, 5)"
  by (simp add: replicaStatus_def decode_defs Atoi_examples)

text \<open>
  C4. For every threshold (zero included), \<^verbatim>\<open>replicaStatus\<close> answers \<open>(false, 0)\<close>
  when the replication-status query fails and when it succeeds with no row, whatever
  the columns are.
\<close>

theorem replicaStatus_no_row:
  "fst (replicaStatus (db\<lparr>show_slave_status := Inl e\<rparr>) t g) = (False, 0) \<and>
   fst (replicaStatus (db\<lparr>show_slave_status := Inr \<lparr>Columns = cols, Data = []\<rparr>\<rparr>) t g)
     = (False, 0)"
  by (simp add: replicaStatus_def unknownColumns_no_rows new_SlaveStatus_def Atoi_zero)

text \<open>
  C5. The threshold 0 is replaced by the largest integer before anything is compared:
  \<^verbatim>\<open>replicaStatus(0)\<close> and \<^verbatim>\<open>replicaStatus(MaxInt64)\<close> return the same pair on every
  database state. In particular a positive lag below the largest integer is within
  threshold under threshold 0, so 0 does not stand for "no lag allowed".
\<close>

theorem replicaStatus_zero_is_unbounded:
  "replicaStatus db 0 g = replicaStatus db MaxInt64 g \<and>
   (show_slave_status db = Inr rows \<and>
    0 < fst (Atoi (secondsMaster (unknownColumns rows))) \<and>
    fst (Atoi (secondsMaster (unknownColumns rows))) < MaxInt64 \<longrightarrow>
    fst (replicaStatus db 0 g) = (True, fst (Atoi (secondsMaster (unknownColumns rows)))))"
proof (intro conjI impI)
  show "replicaStatus db 0 g = replicaStatus db MaxInt64 g"
    by (simp add: replicaStatus_def IntSize_def MaxInt64_def)
next
  assume h: "show_slave_status db = Inr rows \<and>
    0 < fst (Atoi (secondsMaster (unknownColumns rows))) \<and>
    fst (Atoi (secondsMaster (unknownColumns rows))) < MaxInt64"
  then have present: "secondsMaster (unknownColumns rows) \<noteq> []"
    by (auto simp: Atoi_Nil)
  from h present show
    "fst (replicaStatus db 0 g) = (True, fst (Atoi (secondsMaster (unknownColumns rows))))"
    by (simp add: replicaStatus_Inr)
qed

theorem replicaStatus_zero_is_unbounded_witness:
  "fst (replicaStatus
     (example_db ''ON'' (slave_status_row (VBytes ''db1'') (VBytes ''3306'') (VBytes ''42'')) 0)
     0 \<lparr>lag = 0\<rparr>) = (True, 42) \<and>
   fst (replicaStatus
     (example_db ''ON'' (slave_status_row (VBytes ''db1'') (VBytes ''3306'') (VBytes ''42'')) 0)
     MaxInt64 \<lparr>lag = 0\<rparr>) = (True, 42)"
proof -
  let ?rows = "slave_status_row (VBytes ''db1'') (VBytes ''3306'') (VBytes ''42'')"
  let ?db = "example_db ''ON'' ?rows 0"
  let ?g = "\<lparr>lag = 0\<rparr>"
  have q: "show_slave_status ?db = Inr ?rows"
    by (simp add: example_db_def)
  have l: "fst (Atoi (secondsMaster (unknownColumns ?rows))) = 42"
    by (simp add: decode_defs Atoi_examples)
  have h: "show_slave_status ?db = Inr ?rows \<and>
      0 < fst (Atoi (secondsMaster (unknownColumns ?rows))) \<and>
      fst (Atoi (secondsMaster (unknownColumns ?rows))) < MaxInt64"
    using q l by (simp add: MaxInt64_def)
  note t = replicaStatus_zero_is_unbounded [of ?db ?g ?rows]
  from t have same: "replicaStatus ?db 0 ?g = replicaStatus ?db MaxInt64 ?g" ..
  from t h
  have "fst (replicaStatus ?db 0 ?g) = (True, fst (Atoi (secondsMaster (unknownColumns ?rows))))"
    by blast
  then have zero: "fst (replicaStatus ?db 0 ?g) = (True, 42)"
    by (simp only: l)
  from zero same have "fst (replicaStatus ?db MaxInt64 ?g) = (True, 42)"
    by (simp only:)
  with zero show ?thesis ..
qed

text \<open>
  C10. When the replication-status query succeeds and the decoded
  \<^verbatim>\<open>Seconds_Behind_Master\<close> parses to a negative integer \<open>n\<close>, then for every
  threshold \<open>t \<ge> 0\<close> \<^verbatim>\<open>replicaStatus(t)\<close> returns \<open>(true, n)\<close>.
\<close>

theorem replicaStatus_negative_lag:
  assumes "show_slave_status db = Inr rows"
      and "fst (Atoi (secondsMaster (unknownColumns rows))) = n"
      and "n < 0"
      and "0 \<le> t"
  shows "fst (replicaStatus db t g) = (True, n)"
proof -
  from assms(2,3) have present: "secondsMaster (unknownColumns rows) \<noteq> []"
    by (auto simp: Atoi_Nil)
  from assms(3,4) have "n < (if t = 0 then MaxInt64 else t)"
    by (simp add: MaxInt64_def)
  with assms(1,2) present show ?thesis
    by (simp add: replicaStatus_Inr)
qed

theorem replicaStatus_negative_lag_witness:
  "fst (replicaStatus
     (example_db ''ON'' (slave_status_row (VBytes ''db1'') (VBytes ''3306'') (VBytes ''-5'')) 0)
     3 \<lparr>lag = 3\<rparr>) = (True, - 5) \<and>
   fst (replicaStatus
     (example_db ''ON'' (slave_status_row (VBytes ''db1'') (VBytes ''3306'') (VBytes ''-5'')) 0)
     0 \<lparr>lag = 3\<rparr>) = (True, - 5)"
proof -
  let ?rows = "slave_status_row (VBytes ''db1'') (VBytes ''3306'') (VBytes ''-5'')"
  let ?db = "example_db ''ON'' ?rows 0"
  have q: "show_slave_status ?db = Inr ?rows"
    by (simp add: example_db_def)
  have l: "fst (Atoi (secondsMaster (unknownColumns ?rows))) = - 5"
    by (simp add: decode_defs Atoi_examples)
  have a: "fst (replicaStatus ?db 3 \<lparr>lag = 3\<rparr>) = (True, - 5)"
    by (rule replicaStatus_negative_lag [OF q l]) simp_all
  have b: "fst (replicaStatus ?db 0 \<lparr>lag = 3\<rparr>) = (True, - 5)"
    by (rule replicaStatus_negative_lag [OF q l]) simp_all
  from a b show ?thesis ..
qed

section \<open>The decoder on one row\<close>

text \<open>
  C3, as the code has it. On a one-row result the decoder reads the columns from left
  to right and returns at the first value that is not a non-nil byte slice, the database
  NULL in particular. Each field holds the text of the last recognised column of that
  name before that point and is empty otherwise: the NULL column and every column after
  it stay unset, no error is raised, and a NULL never becomes a stored string.
\<close>

theorem unknownColumns_single_row:
  "unknownColumns \<lparr>Columns = cols, Data = [vals]\<rparr> =
     (let seen = takeWhile (\<lambda>(c, v). is_bytes v) (zip cols vals)
      in \<lparr>masterHost = column_text seen ''Master_Host'',
          masterPort = column_text seen ''Master_Port'',
          secondsMaster = column_text seen ''Seconds_Behind_Master''\<rparr>)"
proof -
  let ?seen = "takeWhile (\<lambda>(c, v). is_bytes v) (zip cols vals)"
  have all: "\<forall>(c, v) \<in> set ?seen. is_bytes v"
    by (auto dest: set_takeWhileD)
  show ?thesis
    unfolding Let_def single_row_fold
    by (rule SlaveStatus.equality)
       (simp_all add: fold_store_masterHost fold_store_masterPort fold_store_secondsMaster
          column_text_bytes [OF all] new_SlaveStatus_def
          split: option.splits)
qed

text \<open>
  The specification states C3 with the columns after a NULL still decoded. In a row whose
  \<^verbatim>\<open>Master_Port\<close> is NULL and whose later \<^verbatim>\<open>Seconds_Behind_Master\<close> is \<^verbatim>\<open>"7"\<close>,
  the lag field stays empty.
\<close>

theorem unknownColumns_stops_at_null:
  "unknownColumns (slave_status_row (VBytes ''db1'') VNil (VBytes ''7'')) =
     \<lparr>masterHost = ''db1'', masterPort = [], secondsMaster = []\<rparr>"
  by (simp add: decode_defs)

section \<open>Roles and statuses\<close>

text \<open>
  C2, as the code has it. The top-level \<^verbatim>\<open>RouteRoleMaster\<close> answers true exactly
  when the node is not read-only and not a replica; it does not look at the binlog-dump
  count. The \<^verbatim>\<open>app/\<close> variant answers true exactly when the node is not read-only,
  not a replica and the binlog-dump count is not zero, provided the file \<^verbatim>\<open>/master\<close>
  does not exist; when the file exists (or cannot be examined) it answers true.
\<close>

theorem RouteRoleMaster_formula:
  "Status (snd (RouteRoleMaster db)) = (\<not> readOnly db \<and> \<not> fst (isReplica db)) \<and>
   Status (snd (RouteRoleMaster_app st db)) =
     (if IsNotExist st
      then \<not> readOnly db \<and> \<not> fst (isReplica db) \<and> servingBinlogs db \<noteq> 0
      else True)"
  by (simp add: RouteRoleMaster_def RouteRoleMaster_app_def Status_routeResponse int2bool_def)

text \<open>
  The specification states C2 with a zero binlog-dump count answering false. A writable node
  without replication and without binlog-dump sessions is a master for the top-level
  variant, and so is any node for the \<^verbatim>\<open>app/\<close> variant once \<^verbatim>\<open>/master\<close> exists.
\<close>

theorem RouteRoleMaster_without_binlogs:
  "servingBinlogs (example_db ''OFF'' \<lparr>Columns = [], Data = []\<rparr> 0) = 0 \<and>
   Status (snd (RouteRoleMaster (example_db ''OFF'' \<lparr>Columns = [], Data = []\<rparr> 0))) = True \<and>
   Status (snd (RouteRoleMaster_app StatOk
     (example_db ''OFF'' \<lparr>Columns = [], Data = []\<rparr> 0))) = True"
  by (simp add: RouteRoleMaster_def RouteRoleMaster_app_def IsNotExist_def
      Status_routeResponse readOnly_def isReplica_def
      example_db_def unknownColumns_def new_SlaveStatus_def servingBinlogs_def)

text \<open>
  C6. The scenario is a replica's status row: the replication-status query succeeds and
  the decoded row carries the master's host, with \<^verbatim>\<open>Seconds_Behind_Master = "0"\<close>, on a
  read-only node. Then follower is true, \<^verbatim>\<open>replicaStatus(0)\<close> returns \<open>(true, 0)\<close>,
  the replica role is true, and the lag endpoint answers true with detail \<^verbatim>\<open>"0"\<close>: the
  present zero lag counts as a synced replica.
\<close>

theorem synced_replica_scenario:
  assumes "show_slave_status db = Inr rows"
      and "masterHost (unknownColumns rows) \<noteq> []"
      and "secondsMaster (unknownColumns rows) = ''0''"
      and "readOnly db"
  shows "Status (snd (RouteStatusFollower db)) = True \<and>
         fst (replicaStatus db 0 g) = (True, 0) \<and>
         Status (snd (fst (RouteRoleReplica db g))) = True \<and>
         snd (fst (RouteReadReplicationLag db g)) = \<lparr>Status = True, Content = ''0''\<rparr>"
proof -
  have rs: "fst (replicaStatus db 0 g) = (True, 0)"
    using assms(1,3) by (simp add: replicaStatus_Inr Atoi_zero MaxInt64_def)
  have rr: "Status (snd (fst (RouteRoleReplica db g))) = True"
    using assms(4) rs
    by (simp add: RouteRoleReplica_def Status_routeResponse split_beta)
  have fo: "Status (snd (RouteStatusFollower db)) = True"
    using assms(1,2)
    by (simp add: RouteStatusFollower_def isReplica_Inr Status_routeResponse)
  have rl: "snd (fst (RouteReadReplicationLag db g)) = \<lparr>Status = True, Content = ''0''\<rparr>"
    using assms(1,2) rs
    by (simp add: RouteReadReplicationLag_def isReplica_Inr routeResponse_def Itoa_zero
        split_beta)
  from fo rs rr rl show ?thesis by simp
qed

theorem synced_replica_scenario_witness:
  "Status (snd (RouteStatusFollower
     (example_db ''ON'' (slave_status_row (VBytes ''db1'') (VBytes ''3306'') (VBytes ''0'')) 0)))
     = True \<and>
   fst (replicaStatus
     (example_db ''ON'' (slave_status_row (VBytes ''db1'') (VBytes ''3306'') (VBytes ''0'')) 0)
     0 \<lparr>lag = 0\<rparr>) = (True, 0) \<and>
   Status (snd (fst (RouteRoleReplica
     (example_db ''ON'' (slave_status_row (VBytes ''db1'') (VBytes ''3306'') (VBytes ''0'')) 0)
     \<lparr>lag = 0\<rparr>))) = True \<and>
   snd (fst (RouteReadReplicationLag
     (example_db ''ON'' (slave_status_row (VBytes ''db1'') (VBytes ''3306'') (VBytes ''0'')) 0)
     \<lparr>lag = 0\<rparr>)) = \<lparr>Status = True, Content = ''0''\<rparr>"
proof -
  let ?rows = "slave_status_row (VBytes ''db1'') (VBytes ''3306'') (VBytes ''0'')"
  let ?db = "example_db ''ON'' ?rows 0"
  have q: "show_slave_status ?db = Inr ?rows"
    by (simp add: example_db_def)
  have h: "masterHost (unknownColumns ?rows) \<noteq> []"
    by (simp add: decode_defs)
  have l: "secondsMaster (unknownColumns ?rows) = ''0''"
    by (simp add: decode_defs)
  have r: "readOnly ?db"
    by (simp add: readOnly_def example_db_def)
  show ?thesis by (rule synced_replica_scenario [OF q h l r])
qed

text \<open>
  C7, as the code has it. The read-only status and the master role are never both true
  (for the \<^verbatim>\<open>app/\<close> variant: as long as \<^verbatim>\<open>/master\<close> does not exist). For a state in
  which follower is true, \<^verbatim>\<open>replicaStatus(0)\<close> is within threshold exactly when the
  decoded \<^verbatim>\<open>Seconds_Behind_Master\<close> is non-empty and parses below the largest integer;
  follower alone, which rests on \<^verbatim>\<open>Master_Host\<close>, does not give it.
\<close>

theorem role_status_consistency:
  "\<not> (Status (snd (RouteStatusReadOnly db)) \<and> Status (snd (RouteRoleMaster db))) \<and>
   (IsNotExist st \<longrightarrow>
      \<not> (Status (snd (RouteStatusReadOnly db)) \<and> Status (snd (RouteRoleMaster_app st db)))) \<and>
   (Status (snd (RouteStatusFollower db)) \<and> show_slave_status db = Inr rows \<longrightarrow>
      fst (fst (replicaStatus db 0 g)) =
        (secondsMaster (unknownColumns rows) \<noteq> [] \<and>
         fst (Atoi (secondsMaster (unknownColumns rows))) < MaxInt64))"
proof (intro conjI impI)
  show "\<not> (Status (snd (RouteStatusReadOnly db)) \<and> Status (snd (RouteRoleMaster db)))"
    by (simp add: RouteStatusReadOnly_def RouteRoleMaster_def Status_routeResponse)
next
  assume "IsNotExist st"
  then show "\<not> (Status (snd (RouteStatusReadOnly db)) \<and>
                Status (snd (RouteRoleMaster_app st db)))"
    by (simp add: RouteStatusReadOnly_def RouteRoleMaster_app_def Status_routeResponse)
next
  assume "Status (snd (RouteStatusFollower db)) \<and> show_slave_status db = Inr rows"
  then have "show_slave_status db = Inr rows" ..
  then show "fst (fst (replicaStatus db 0 g)) =
        (secondsMaster (unknownColumns rows) \<noteq> [] \<and>
         fst (Atoi (secondsMaster (unknownColumns rows))) < MaxInt64)"
    by (simp add: replicaStatus_Inr)
qed

theorem role_status_consistency_witness:
  "Status (snd (RouteStatusFollower
     (example_db ''ON'' (slave_status_row (VBytes ''db1'') (VBytes ''3306'') (VBytes ''7'')) 0)))
     = True \<and>
   fst (fst (replicaStatus
     (example_db ''ON'' (slave_status_row (VBytes ''db1'') (VBytes ''3306'') (VBytes ''7'')) 0)
     0 \<lparr>lag = 0\<rparr>)) = True \<and>
   \<not> (Status (snd (RouteStatusReadOnly
         (example_db ''ON'' (slave_status_row (VBytes ''db1'') (VBytes ''3306'') (VBytes ''7'')) 0)))
      \<and> Status (snd (RouteRoleMaster_app StatNotExist
         (example_db ''ON'' (slave_status_row (VBytes ''db1'') (VBytes ''3306'') (VBytes ''7'')) 0))))"
proof -
  let ?rows = "slave_status_row (VBytes ''db1'') (VBytes ''3306'') (VBytes ''7'')"
  let ?db = "example_db ''ON'' ?rows 0"
  have q: "show_slave_status ?db = Inr ?rows"
    by (simp add: example_db_def)
  have f: "Status (snd (RouteStatusFollower ?db)) = True"
    by (simp add: RouteStatusFollower_def Status_routeResponse isReplica_def decode_defs)
  have l: "secondsMaster (unknownColumns ?rows) \<noteq> [] \<and>
           fst (Atoi (secondsMaster (unknownColumns ?rows))) < MaxInt64"
    by (simp add: decode_defs Atoi_examples MaxInt64_def)
  have n: "IsNotExist StatNotExist"
    by (simp add: IsNotExist_def)
  from role_status_consistency [of ?db StatNotExist ?rows "\<lparr>lag = 0\<rparr>"] q f l n
  show ?thesis by blast
qed

text \<open>
  The specification states C7 with every follower passing the unbounded lag test. A
  replica whose \<^verbatim>\<open>Seconds_Behind_Master\<close> is NULL (replication stopped) is a follower,
  and \<^verbatim>\<open>replicaStatus(0)\<close> answers false for it. On the same read-only node the
  \<^verbatim>\<open>app/\<close> master role is true once \<^verbatim>\<open>/master\<close> exists.
\<close>

theorem follower_with_null_lag:
  "Status (snd (RouteStatusFollower
     (example_db ''ON'' (slave_status_row (VBytes ''db1'') (VBytes ''3306'') VNil) 0))) = True \<and>
   fst (fst (replicaStatus
     (example_db ''ON'' (slave_status_row (VBytes ''db1'') (VBytes ''3306'') VNil) 0)
     0 \<lparr>lag = 0\<rparr>)) = False \<and>
   Status (snd (RouteStatusReadOnly
     (example_db ''ON'' (slave_status_row (VBytes ''db1'') (VBytes ''3306'') VNil) 0))) = True \<and>
   Status (snd (RouteRoleMaster_app StatOk
     (example_db ''ON'' (slave_status_row (VBytes ''db1'') (VBytes ''3306'') VNil) 0))) = True"
  by (simp add: RouteStatusFollower_def RouteStatusReadOnly_def RouteRoleMaster_app_def
      IsNotExist_def Status_routeResponse isReplica_def replicaStatus_def readOnly_def
      decode_defs Atoi_zero)

section \<open>Unavailable probes\<close>

lemma unavailable_readOnly: "isl (show_read_only db) \<Longrightarrow> readOnly db = False"
  by (cases "show_read_only db") (simp_all add: readOnly_def)

lemma unavailable_unknownColumns:
  "slave_status_unavailable db \<Longrightarrow> show_slave_status db = Inr rows \<Longrightarrow>
   unknownColumns rows = new_SlaveStatus"
  by (simp add: slave_status_unavailable_def unknownColumns_def)

lemma unavailable_isReplica:
  "slave_status_unavailable db \<Longrightarrow> isReplica db = (False, [], [])"
  by (cases "show_slave_status db")
     (simp_all add: isReplica_Inl isReplica_Inr unavailable_unknownColumns new_SlaveStatus_def)

lemma unavailable_replicaStatus:
  "slave_status_unavailable db \<Longrightarrow> fst (replicaStatus db t g) = (False, 0)"
  by (cases "show_slave_status db")
     (simp_all add: replicaStatus_Inl replicaStatus_Inr unavailable_unknownColumns
        new_SlaveStatus_def)

lemma unavailable_servingBinlogs: "isl (count_binlog_dump db) \<Longrightarrow> servingBinlogs db = 0"
  by (cases "count_binlog_dump db") (simp_all add: servingBinlogs_def)

lemma unavailable_galera:
  "isl (select_wsrep_state db) \<Longrightarrow> galeraClusterState db = (False, [])"
  by (cases "select_wsrep_state db") (simp_all add: galeraClusterState_def)

text \<open>
  C8, as the code has it. When a probe's query fails or yields no row, the probe returns
  its negative value: \<^verbatim>\<open>readOnly\<close> false, \<^verbatim>\<open>isReplica\<close> \<open>(false, "", "")\<close>,
  \<^verbatim>\<open>replicaStatus\<close> \<open>(false, 0)\<close>, \<^verbatim>\<open>servingBinlogs\<close> 0, \<^verbatim>\<open>galeraClusterState\<close>
  \<open>(false, "")\<close>. Every route still answers, and the answer follows from the
  negative value: false with empty detail for read-only, follower, leader, the \<^verbatim>\<open>app/\<close>
  master role without \<^verbatim>\<open>/master\<close>, both replica roles, the galera role and the galera,
  lag and master read endpoints, and for topology when all probes are unavailable; false
  with detail \<^verbatim>\<open>"0"\<close> for the replica counter; and true with empty detail for
  read-write and, when all probes are unavailable, for single and the top-level master
  role, which negate the probes.
\<close>

theorem probes_unavailable_answers:
  "(isl (show_read_only db) \<longrightarrow>
      readOnly db = False \<and>
      RouteStatusReadOnly db = routeResponse False [] \<and>
      fst (RouteRoleReplica db g) = routeResponse False [] \<and>
      fst (RouteRoleReplicaByLag db g) = routeResponse False [] \<and>
      RouteStatusReadWritable db = routeResponse True []) \<and>
   (slave_status_unavailable db \<longrightarrow>
      isReplica db = (False, [], []) \<and>
      fst (replicaStatus db t g) = (False, 0) \<and>
      RouteStatusFollower db = routeResponse False [] \<and>
      fst (RouteRoleReplica db g) = routeResponse False [] \<and>
      fst (RouteRoleReplicaByLag db g) = routeResponse False [] \<and>
      fst (RouteReadReplicationLag db g) = routeResponse False [] \<and>
      RouteReadReplicationMaster db = routeResponse False []) \<and>
   (isl (count_binlog_dump db) \<longrightarrow>
      servingBinlogs db = 0 \<and>
      RouteStatusLeader db = routeResponse False [] \<and>
      RouteRoleMaster_app StatNotExist db = routeResponse False [] \<and>
      RouteReadReplicasCounter db = routeResponse False ''0'') \<and>
   (isl (select_wsrep_state db) \<longrightarrow>
      galeraClusterState db = (False, []) \<and>
      RouteRoleGalera db = routeResponse False [] \<and>
      RouteReadGaleraState db = routeResponse False []) \<and>
   (probes_unavailable db \<longrightarrow>
      fst (RouteStatusTopology db g) = routeResponse False [] \<and>
      RouteStatusSingle db = routeResponse True [] \<and>
      RouteRoleMaster db = routeResponse True [])"
proof (intro conjI impI)
  assume h: "isl (show_read_only db)"
  note u = unavailable_readOnly [OF h]
  show "readOnly db = False" by (rule u)
  show "RouteStatusReadOnly db = routeResponse False []"
    by (simp add: RouteStatusReadOnly_def u)
  show "fst (RouteRoleReplica db g) = routeResponse False []"
    by (simp add: RouteRoleReplica_def u split_beta)
  show "fst (RouteRoleReplicaByLag db g) = routeResponse False []"
    by (simp add: RouteRoleReplicaByLag_def u split_beta)
  show "RouteStatusReadWritable db = routeResponse True []"
    by (simp add: RouteStatusReadWritable_def u)
next
  assume h: "slave_status_unavailable db"
  note u = unavailable_isReplica [OF h] unavailable_replicaStatus [OF h]
  show "isReplica db = (False, [], [])" by (rule u)
  show "fst (replicaStatus db t g) = (False, 0)" by (rule u)
  show "RouteStatusFollower db = routeResponse False []"
    by (simp add: RouteStatusFollower_def u)
  show "fst (RouteRoleReplica db g) = routeResponse False []"
    by (simp add: RouteRoleReplica_def u split_beta)
  show "fst (RouteRoleReplicaByLag db g) = routeResponse False []"
    by (simp add: RouteRoleReplicaByLag_def u split_beta)
  show "fst (RouteReadReplicationLag db g) = routeResponse False []"
    by (simp add: RouteReadReplicationLag_def u split_beta)
  show "RouteReadReplicationMaster db = routeResponse False []"
    by (simp add: RouteReadReplicationMaster_def u)
next
  assume h: "isl (count_binlog_dump db)"
  note u = unavailable_servingBinlogs [OF h]
  show "servingBinlogs db = 0" by (rule u)
  show "RouteStatusLeader db = routeResponse False []"
    by (simp add: RouteStatusLeader_def u int2bool_def)
  show "RouteRoleMaster_app StatNotExist db = routeResponse False []"
    by (simp add: RouteRoleMaster_app_def IsNotExist_def u int2bool_def)
  show "RouteReadReplicasCounter db = routeResponse False ''0''"
    by (simp add: RouteReadReplicasCounter_def u int2bool_def)
next
  assume h: "isl (select_wsrep_state db)"
  note u = unavailable_galera [OF h]
  show "galeraClusterState db = (False, [])" by (rule u)
  show "RouteRoleGalera db = routeResponse False []"
    by (simp add: RouteRoleGalera_def u)
  show "RouteReadGaleraState db = routeResponse False []"
    by (simp add: RouteReadGaleraState_def u)
next
  assume h: "probes_unavailable db"
  then have r: "isl (show_read_only db)" and s: "slave_status_unavailable db"
    and b: "isl (count_binlog_dump db)"
    by (simp_all add: probes_unavailable_def)
  note u = unavailable_readOnly [OF r] unavailable_isReplica [OF s]
    unavailable_replicaStatus [OF s] unavailable_servingBinlogs [OF b]
  show "fst (RouteStatusTopology db g) = routeResponse False []"
    by (simp add: RouteStatusTopology_def u int2bool_def split_beta)
  show "RouteStatusSingle db = routeResponse True []"
    by (simp add: RouteStatusSingle_def u int2bool_def)
  show "RouteRoleMaster db = routeResponse True []"
    by (simp add: RouteRoleMaster_def u)
qed

theorem probes_unavailable_answers_witness:
  "probes_unavailable failed_db \<and>
   readOnly failed_db = False \<and> isReplica failed_db = (False, [], []) \<and>
   fst (replicaStatus failed_db 30 \<lparr>lag = 30\<rparr>) = (False, 0) \<and>
   servingBinlogs failed_db = 0 \<and>
   galeraClusterState failed_db = (False, []) \<and>
   RouteStatusFollower failed_db = (403, \<lparr>Status = False, Content = []\<rparr>) \<and>
   fst (RouteStatusTopology failed_db \<lparr>lag = 30\<rparr>) = (403, \<lparr>Status = False, Content = []\<rparr>) \<and>
   fst (RouteRoleReplicaByLag failed_db \<lparr>lag = 30\<rparr>)
     = (403, \<lparr>Status = False, Content = []\<rparr>) \<and>
   RouteReadGaleraState failed_db = (403, \<lparr>Status = False, Content = []\<rparr>)"
proof -
  have h: "probes_unavailable failed_db"
    by (simp add: probes_unavailable_def slave_status_unavailable_def failed_db_def)
  then have r: "isl (show_read_only failed_db)" and s: "slave_status_unavailable failed_db"
    and b: "isl (count_binlog_dump failed_db)" and g: "isl (select_wsrep_state failed_db)"
    by (simp_all add: probes_unavailable_def)
  from probes_unavailable_answers [of failed_db "\<lparr>lag = 30\<rparr>" 30] h r s b g show ?thesis
    by (simp add: routeResponse_def)
qed

text \<open>
  The specification states C8 with every classification answering false with empty
  detail. With every query failing, read-write and single answer true, and the replica
  counter answers with detail \<^verbatim>\<open>"0"\<close>.
\<close>

theorem unavailable_read_write_true:
  "probes_unavailable failed_db \<and>
   RouteStatusReadWritable failed_db = (200, \<lparr>Status = True, Content = []\<rparr>) \<and>
   RouteStatusSingle failed_db = (200, \<lparr>Status = True, Content = []\<rparr>) \<and>
   RouteReadReplicasCounter failed_db = (403, \<lparr>Status = False, Content = ''0''\<rparr>)"
  by (simp add: probes_unavailable_def slave_status_unavailable_def failed_db_def
      RouteStatusReadWritable_def RouteStatusSingle_def RouteReadReplicasCounter_def
      routeResponse_def readOnly_def isReplica_def servingBinlogs_def int2bool_def)

section \<open>Replica-ness\<close>

text \<open>
  C9. \<^verbatim>\<open>isReplica\<close> answers true exactly when the replication-status query succeeds
  and the decoded \<^verbatim>\<open>Master_Host\<close> is non-empty. When it answers false, the host and
  port it returns are empty and the master and lag read endpoints carry an empty detail.
  A failed query and a result without rows both give "not a replica".
\<close>

theorem isReplica_invariant:
  "(fst (isReplica db) \<longleftrightarrow>
      (\<exists>rows. show_slave_status db = Inr rows \<and> masterHost (unknownColumns rows) \<noteq> [])) \<and>
   (\<not> fst (isReplica db) \<longrightarrow>
      isReplica db = (False, [], []) \<and>
      Content (snd (RouteReadReplicationMaster db)) = [] \<and>
      Content (snd (fst (RouteReadReplicationLag db g))) = []) \<and>
   (\<forall>rows. show_slave_status db = Inr rows \<and> Data rows = [] \<longrightarrow> \<not> fst (isReplica db)) \<and>
   (\<forall>e. show_slave_status db = Inl e \<longrightarrow> \<not> fst (isReplica db))"
proof (cases "show_slave_status db")
  case (Inl e)
  then show ?thesis
    by (simp add: isReplica_Inl RouteReadReplicationMaster_def RouteReadReplicationLag_def
        Content_routeResponse split_beta)
next
  case (Inr rows)
  have empty: "Data rows = [] \<Longrightarrow> masterHost (unknownColumns rows) = []"
    by (simp add: unknownColumns_def new_SlaveStatus_def)
  from Inr empty show ?thesis
    by (auto simp: isReplica_Inr RouteReadReplicationMaster_def RouteReadReplicationLag_def
        Content_routeResponse split_beta)
qed

theorem isReplica_invariant_witness:
  "\<not> fst (isReplica
       (example_db ''ON'' (slave_status_row (VBytes []) (VBytes ''3306'') (VBytes ''0'')) 0)) \<and>
   isReplica (example_db ''ON'' (slave_status_row (VBytes []) (VBytes ''3306'') (VBytes ''0'')) 0)
     = (False, [], []) \<and>
   Content (snd (fst (RouteReadReplicationLag
     (example_db ''ON'' (slave_status_row (VBytes []) (VBytes ''3306'') (VBytes ''0'')) 0)
     \<lparr>lag = 0\<rparr>))) = [] \<and>
   \<not> fst (isReplica (example_db ''ON'' \<lparr>Columns = [''Master_Host''], Data = []\<rparr> 0)) \<and>
   \<not> fst (isReplica failed_db) \<and>
   fst (isReplica
     (example_db ''ON'' (slave_status_row (VBytes ''db1'') (VBytes ''3306'') (VBytes ''0'')) 0))"
proof -
  let ?none = "slave_status_row (VBytes []) (VBytes ''3306'') (VBytes ''0'')"
  let ?some = "slave_status_row (VBytes ''db1'') (VBytes ''3306'') (VBytes ''0'')"
  let ?norow = "\<lparr>Columns = [''Master_Host''], Data = []\<rparr>"
  let ?g = "\<lparr>lag = 0\<rparr>"
  have q: "show_slave_status (example_db ''ON'' r 0) = Inr r" for r
    by (simp add: example_db_def)
  have h1: "masterHost (unknownColumns ?none) = []"
    by (simp add: decode_defs)
  have h2: "masterHost (unknownColumns ?some) \<noteq> []"
    by (simp add: decode_defs)
  have h3: "Data ?norow = []"
    by simp
  have h4: "show_slave_status failed_db = Inl ErrQuery"
    by (simp add: failed_db_def)
  from isReplica_invariant [of "example_db ''ON'' ?none 0" ?g] q [of ?none] h1
  have a: "\<not> fst (isReplica (example_db ''ON'' ?none 0))"
    by simp
  with isReplica_invariant [of "example_db ''ON'' ?none 0" ?g]
  have b: "isReplica (example_db ''ON'' ?none 0) = (False, [], []) \<and>
           Content (snd (fst (RouteReadReplicationLag (example_db ''ON'' ?none 0) ?g))) = []"
    by blast
  from isReplica_invariant [of "example_db ''ON'' ?norow 0" ?g] q [of ?norow] h3
  have c: "\<not> fst (isReplica (example_db ''ON'' ?norow 0))"
    by blast
  from isReplica_invariant [of failed_db ?g] h4
  have d: "\<not> fst (isReplica failed_db)"
    by blast
  from isReplica_invariant [of "example_db ''ON'' ?some 0" ?g] q [of ?some] h2
  have e: "fst (isReplica (example_db ''ON'' ?some 0))"
    by blast
  from a b c d e show ?thesis by blast
qed

end
